theory Spec2Isabelle
  imports Complex_Main "HOL-Library.Log_Nat"
begin

section \<open>Exceptions\<close>

text \<open>
  The Python exceptions that the modelled code raises or catches.  A function that can
  raise returns \<open>error + 'a\<close> with \<open>Inl\<close> for the exception.  \<open>LibraryError\<close> stands
  for an arbitrary exception raised inside a library routine (the bare \<open>except:\<close> of
  \<open>deglitch\<close> catches every exception).
\<close>

datatype error = ValueError | IndexError | ZeroDivisionError | SIMError | LibraryError

section \<open>SRS SIM instrument drivers (kid\_readout/equipment/sim.py)\<close>

subsection \<open>The serial link and the mainframe connection\<close>

text \<open>
  The state a driver acts on: \<open>written\<close> lists the arguments of every call of
  \<open>serial.write\<close>, oldest first; \<open>parent_port\<close> is the driver's \<open>parent_and_port\<close> (the
  port of the SIM900 mainframe the module sits in, \<open>None\<close> when the module is addressed
  directly); \<open>connected\<close> is the mainframe's attribute \<open>self.connected\<close>.
\<close>

record sim =
  written :: "string list"
  parent_port :: "string option"
  parent_connected :: "string option"

type_synonym 'a outcome = "(error + 'a) \<times> sim"

definition SIM_termination :: string where
  "SIM_termination = [CHR 0x0A]"

definition escape :: string where
  "escape = ''ESCAPE''"

definition serial_write :: "string \<Rightarrow> sim \<Rightarrow> sim" where
  "serial_write m st = st\<lparr>written := written st @ [m]\<rparr>"

text \<open>
  \<open>SIM900.connect\<close> and \<open>SIM900.disconnect\<close>.  The mainframe has no parent of its own, so
  its \<open>send\<close> is a plain \<open>serial.write\<close>.
\<close>

definition SIM900_connect :: "string \<Rightarrow> sim \<Rightarrow> unit outcome" where
  "SIM900_connect port st =
     (if parent_connected st \<noteq> None then (Inl ValueError, st)
      else (Inr (),
            (serial_write (''CONN '' @ port @ '', '' @ [CHR 0x22] @ escape @ [CHR 0x22] @ SIM_termination) st)
              \<lparr>parent_connected := Some port\<rparr>))"

definition SIM900_disconnect :: "sim \<Rightarrow> unit outcome" where
  "SIM900_disconnect st = (Inr (), (serial_write (escape @ SIM_termination) st)\<lparr>parent_connected := None\<rparr>)"

text \<open>\<open>SIM.send\<close>: a direct write, or a write bracketed by connect and disconnect.\<close>

definition send :: "string \<Rightarrow> sim \<Rightarrow> unit outcome" where
  "send message st =
     (case parent_port st of
        None \<Rightarrow> (Inr (), serial_write (message @ SIM_termination) st)
      | Some port \<Rightarrow>
          (case SIM900_connect port st of
             (Inl e, st1) \<Rightarrow> (Inl e, st1)
           | (Inr u, st1) \<Rightarrow> SIM900_disconnect (serial_write (message @ SIM_termination) st1)))"

text \<open>
  \<open>SIM.send_and_receive\<close> acts on the link like \<open>send\<close>; the line it reads back is the
  instrument's answer and is supplied by the \<open>device\<close> record below.
\<close>

definition send_and_receive :: "string \<Rightarrow> sim \<Rightarrow> unit outcome" where
  "send_and_receive message st =
     (case parent_port st of
        None \<Rightarrow> (Inr (), serial_write (message @ SIM_termination) st)
      | Some port \<Rightarrow>
          (case SIM900_connect port st of
             (Inl e, st1) \<Rightarrow> (Inl e, st1)
           | (Inr u, st1) \<Rightarrow> SIM900_disconnect (serial_write (message @ SIM_termination) st1)))"

subsection \<open>SIM921: the excitation frequency\<close>

definition minimum_frequency :: real where
  "minimum_frequency = 195 / 100"

definition maximum_frequency :: real where
  "maximum_frequency = 611 / 10"

text \<open>
  The setter of \<open>SIM921.frequency\<close>.  \<open>fmt\<close> is Python's \<open>'{0}'.format\<close> on the number
  given.
\<close>

definition SIM921_set_frequency :: "(real \<Rightarrow> string) \<Rightarrow> real \<Rightarrow> sim \<Rightarrow> unit outcome" where
  "SIM921_set_frequency fmt f st =
     (if \<not> (minimum_frequency \<le> f \<and> f \<le> maximum_frequency) then (Inl ValueError, st)
      else send (''FREQ '' @ fmt f) st)"


subsection \<open>Calibration curves and the thermometer modules\<close>

text \<open>
  \<open>and_then\<close> sequences two actions on the link: an exception of the first ends the
  sequence with the state reached at the raise.
\<close>

definition and_then :: "'a outcome \<Rightarrow> ('a \<Rightarrow> sim \<Rightarrow> 'b outcome) \<Rightarrow> 'b outcome" where
  "and_then r k = (case r of (Inl e, st) \<Rightarrow> (Inl e, st) | (Inr a, st) \<Rightarrow> k a st)"

record CalibrationCurve =
  sensor :: "real list"
  temperature :: "real list"
  identification :: string
  curve_format :: string

definition np_diff :: "real list \<Rightarrow> real list" where
  "np_diff xs = map2 (\<lambda>a b. b - a) xs (tl xs)"

definition upper_char :: "char \<Rightarrow> char" where
  "upper_char c =
     (let n = (of_char c :: nat) in if 97 \<le> n \<and> n \<le> 122 then char_of (n - 32) else c)"

text \<open>
  \<open>CalibrationCurve.__init__\<close>: \<open>all(np.diff(sensor))\<close> holds when no two neighbouring
  sensor values are equal.
\<close>

definition mk_CalibrationCurve ::
  "real list \<Rightarrow> real list \<Rightarrow> string \<Rightarrow> string \<Rightarrow> error + CalibrationCurve" where
  "mk_CalibrationCurve s t ident fmt =
     (if \<not> list_all (\<lambda>d. d \<noteq> 0) (np_diff s) then Inl ValueError
      else if \<not> (length s = length t) then Inl ValueError
      else Inr \<lparr>sensor = s, temperature = t, identification = map upper_char ident,
                curve_format = fmt\<rparr>)"

text \<open>
  What the instrument answers, already split and converted as \<open>curve_info\<close> and
  \<open>read_curve\<close> do with \<open>split\<close>, \<open>int\<close> and \<open>float\<close>: to \<open>CINI? number\<close> the format, the
  identification and the number of points; to \<open>CAPT? number, n\<close> the sensor and the
  temperature value of point \<open>n\<close> (one-based).  The instrument is the environment of the
  driver: which points it kept of those written to it is not decided by the code.
\<close>

record device =
  CINI_reply :: "nat \<Rightarrow> string \<times> string \<times> nat"
  CAPT_reply :: "nat \<Rightarrow> nat \<Rightarrow> real \<times> real"

text \<open>Python's \<open>'{0}'.format\<close> on an integer and on a float.\<close>

record formatting =
  format_int :: "nat \<Rightarrow> string"
  format_float :: "real \<Rightarrow> string"

datatype thermometer = SIM921 | SIM922

fun maximum_temperature_points :: "thermometer \<Rightarrow> nat" where
  "maximum_temperature_points SIM921 = 225"
| "maximum_temperature_points SIM922 = 256"

definition maximum_fractional_error :: real where
  "maximum_fractional_error = 1 / 10000"

definition curve_info :: "formatting \<Rightarrow> device \<Rightarrow> nat \<Rightarrow> sim \<Rightarrow> (string \<times> string \<times> nat) outcome" where
  "curve_info F dev number st =
     and_then (send_and_receive (''CINI? '' @ format_int F number) st)
       (\<lambda>u st1. (Inr (CINI_reply dev number), st1))"

definition initialize_curve :: "formatting \<Rightarrow> nat \<Rightarrow> string \<Rightarrow> string \<Rightarrow> sim \<Rightarrow> unit outcome" where
  "initialize_curve F number fmt ident st =
     send (''CINI '' @ format_int F number @ '', '' @ fmt @ '', '' @ ident) st"

text \<open>The loop of \<open>read_curve\<close> over the point numbers \<open>1 .. points\<close>.\<close>

fun read_points ::
  "formatting \<Rightarrow> device \<Rightarrow> nat \<Rightarrow> nat list \<Rightarrow> real list \<times> real list \<Rightarrow> sim
     \<Rightarrow> (real list \<times> real list) outcome" where
  "read_points F dev number [] acc st = (Inr acc, st)"
| "read_points F dev number (n # ns) acc st =
     and_then (send_and_receive (''CAPT? '' @ format_int F number @ '', '' @ format_int F n) st)
       (\<lambda>u st1. read_points F dev number ns
          (fst acc @ [fst (CAPT_reply dev number n)], snd acc @ [snd (CAPT_reply dev number n)]) st1)"

definition read_curve :: "formatting \<Rightarrow> device \<Rightarrow> nat \<Rightarrow> sim \<Rightarrow> CalibrationCurve outcome" where
  "read_curve F dev number st =
     and_then (curve_info F dev number st)
       (\<lambda>info st1.
          and_then (read_points F dev number [1 ..< snd (snd info) + 1] ([], []) st1)
            (\<lambda>pts st2. (mk_CalibrationCurve (fst pts) (snd pts) (fst (snd info)) (fst info), st2)))"

text \<open>
  An elementwise operation on two one-dimensional numpy arrays: equal lengths pair up, an
  array of length one is broadcast against the other, any other pair of lengths raises
  \<open>ValueError\<close>.
\<close>

definition np_broadcast :: "('a \<Rightarrow> 'b \<Rightarrow> 'c) \<Rightarrow> 'a list \<Rightarrow> 'b list \<Rightarrow> error + 'c list" where
  "np_broadcast f xs ys =
     (if length xs = length ys then Inr (map2 f xs ys)
      else if length ys = 1 then Inr (map (\<lambda>x. f x (hd ys)) xs)
      else if length xs = 1 then Inr (map (\<lambda>y. f (hd xs) y) ys)
      else Inl ValueError)"

text \<open>
  One entry of \<open>abs(stored / curve - 1) < maximum_fractional_error\<close>.  For a zero divisor
  numpy yields an infinity or a NaN, and the comparison is false.
\<close>

definition fraction_ok :: "real \<Rightarrow> real \<Rightarrow> bool" where
  "fraction_ok s c = (if c = 0 then False else \<bar>s / c - 1\<bar> < maximum_fractional_error)"

text \<open>
  The \<open>try\<close> block of \<open>validate_curve\<close>: the conjunction is evaluated from the left and
  stops at the first false conjunct; a \<open>ValueError\<close> of a comparison gives \<open>False\<close>.
\<close>

definition compare_curves :: "CalibrationCurve \<Rightarrow> CalibrationCurve \<Rightarrow> error + bool" where
  "compare_curves stored curve =
     (case np_broadcast fraction_ok (sensor stored) (sensor curve) of
        Inl e \<Rightarrow> (if e = ValueError then Inr False else Inl e)
      | Inr a \<Rightarrow>
          if \<not> list_all id a then Inr False
          else (case np_broadcast fraction_ok (temperature stored) (temperature curve) of
                  Inl e \<Rightarrow> (if e = ValueError then Inr False else Inl e)
                | Inr b \<Rightarrow>
                    Inr (list_all id b \<and> identification stored = identification curve
                           \<and> curve_format stored = curve_format curve)))"

definition validate_curve ::
  "formatting \<Rightarrow> device \<Rightarrow> nat \<Rightarrow> CalibrationCurve \<Rightarrow> sim \<Rightarrow> bool outcome" where
  "validate_curve F dev number curve st =
     and_then (curve_info F dev number st)
       (\<lambda>info st1.
          and_then (read_curve F dev number st1)
            (\<lambda>stored st2. (compare_curves stored curve, st2)))"

text \<open>
  The loop of \<open>write_curve\<close> over \<open>range(curve.sensor.size)\<close>; \<open>curve.temperature[n]\<close>
  raises \<open>IndexError\<close> past the end of the temperature array.
\<close>

fun write_points :: "formatting \<Rightarrow> nat \<Rightarrow> CalibrationCurve \<Rightarrow> nat list \<Rightarrow> sim \<Rightarrow> unit outcome" where
  "write_points F number curve [] st = (Inr (), st)"
| "write_points F number curve (n # ns) st =
     (if n \<ge> length (temperature curve) then (Inl IndexError, st)
      else write_points F number curve ns
             (serial_write (''CAPT '' @ format_int F number @ '', '' @ format_float F (sensor curve ! n)
                              @ '', '' @ format_float F (temperature curve ! n) @ SIM_termination) st))"

definition write_curve ::
  "formatting \<Rightarrow> device \<Rightarrow> thermometer \<Rightarrow> nat \<Rightarrow> CalibrationCurve \<Rightarrow> sim \<Rightarrow> unit outcome" where
  "write_curve F dev instr number curve st =
     (if length (sensor curve) > maximum_temperature_points instr then (Inl SIMError, st)
      else
        and_then (initialize_curve F number (curve_format curve) (identification curve) st)
          (\<lambda>u st1.
            and_then (case parent_port st1 of None \<Rightarrow> (Inr (), st1)
                      | Some port \<Rightarrow> SIM900_connect port st1)
              (\<lambda>u st2.
                and_then (write_points F number curve [0 ..< length (sensor curve)] st2)
                  (\<lambda>u st3.
                    and_then (case parent_port st3 of None \<Rightarrow> (Inr (), st3)
                              | Some port \<Rightarrow> SIM900_disconnect st3)
                      (\<lambda>u st4.
                        and_then (validate_curve F dev number curve st4)
                          (\<lambda>ok st5. if \<not> ok then (Inl SIMError, st5) else (Inr (), st5)))))))"

section \<open>Streams of ROACH data (kid\_readout/measurement/basic.py)\<close>

subsection \<open>Samples and numpy's NaN-aware statistics\<close>

text \<open>
  A floating-point value that is either finite or NaN is a \<open>real option\<close> with \<open>None\<close>
  for NaN; finite values are idealised as real numbers (rounding and overflow are outside
  the model).  A complex sample of \<open>s21_raw\<close> is the pair of its real and imaginary part.
\<close>

type_synonym cfl = "real option \<times> real option"

text \<open>\<open>np.isnan\<close> of a complex number: one NaN part suffices.\<close>

definition isnan :: "cfl \<Rightarrow> bool" where
  "isnan z = (fst z = None \<or> snd z = None)"

text \<open>\<open>np.sum(~np.isnan(a), axis=-1)\<close> for one channel.\<close>

definition num_good :: "cfl list \<Rightarrow> nat" where
  "num_good xs = length (filter (\<lambda>z. \<not> isnan z) xs)"

definition mean :: "real list \<Rightarrow> real" where
  "mean vs = sum_list vs / real (length vs)"

text \<open>
  \<open>np.nanstd\<close> of a float array along its last axis: the population standard deviation
  of the entries that are not NaN, and NaN when there is none.
\<close>

definition nanstd :: "real option list \<Rightarrow> real option" where
  "nanstd xs =
     (let vs = map the (filter (\<lambda>x. x \<noteq> None) xs)
      in if vs = [] then None
         else Some (sqrt (mean (map (\<lambda>v. (v - mean vs)\<^sup>2) vs))))"

text \<open>
  \<open>np.nanmean\<close> of a complex array along its last axis: the mean of the samples that are
  not NaN, and NaN in both parts when there is none.
\<close>

definition nanmean :: "cfl list \<Rightarrow> cfl" where
  "nanmean xs =
     (let vs = filter (\<lambda>z. \<not> isnan z) xs
      in if vs = [] then (None, None)
         else (Some (mean (map (\<lambda>z. the (fst z)) vs)), Some (mean (map (\<lambda>z. the (snd z)) vs))))"

text \<open>
  \<open>a + 1j * b\<close> for two floats: the product \<open>1j * b\<close> has a NaN real part when \<open>b\<close> is
  NaN.
\<close>

definition np_complex :: "real option \<Rightarrow> real option \<Rightarrow> cfl" where
  "np_complex a b = (case b of None \<Rightarrow> (None, None) | Some v \<Rightarrow> (a, Some v))"

text \<open>
  The outcome of a numpy true division: a finite quotient, NaN, or the division of a
  finite value by zero (\<open>DivByZero\<close>), for which numpy warns and yields an infinity or a
  NaN.
\<close>

datatype 'a quotient = Quot 'a | DivByZero | QNaN

text \<open>
  A complex number divided by a float.  numpy divides by the complex number with
  imaginary part zero; a NaN in any of the three parts makes both parts of the quotient
  NaN.
\<close>

definition np_divide_complex :: "cfl \<Rightarrow> real option \<Rightarrow> real quotient \<times> real quotient" where
  "np_divide_complex z d =
     (case (fst z, snd z, d) of
        (Some a, Some b, Some c) \<Rightarrow>
          (if c = 0 then (DivByZero, DivByZero) else (Quot (a / c), Quot (b / c)))
      | _ \<Rightarrow> (QNaN, QNaN))"

definition np_sqrt :: "real option \<Rightarrow> real option" where
  "np_sqrt x = map_option sqrt x"

subsection \<open>RoachStream and its two subclasses\<close>

text \<open>
  A \<open>SingleStream\<close> holds one channel (\<open>s21_raw\<close> is one-dimensional, \<open>frequency\<close> a
  scalar), a \<open>StreamArray\<close> several channels sampled together (\<open>s21_raw\<close> has one row per
  channel).  \<open>frequency\<close> and \<open>stream_sample_rate\<close> are computed by the module
  \<open>kid_readout.roach.calculate\<close> from the ROACH state; they are fields here, and the
  sample rate is positive for every configured ROACH.  \<open>sequence_start_number\<close> is \<open>None\<close>
  for NaN.
\<close>

record SingleStream =
  epoch :: real
  frequency :: real
  stream_sample_rate :: real
  sequence_start_number :: "int option"
  s21_raw :: "cfl list"
  state :: "(string \<times> string) list"

record StreamArray =
  sa_epoch :: real
  sa_frequency :: "real list"
  sa_stream_sample_rate :: real
  sa_sequence_start_number :: "int option"
  sa_s21_raw :: "cfl list list"
  sa_state :: "(string \<times> string) list"

text \<open>\<open>RoachStream.sample_time\<close> for \<open>n = s21_raw.shape[-1]\<close> samples.\<close>

definition sample_time_of :: "nat \<Rightarrow> real \<Rightarrow> real list" where
  "sample_time_of n rate = map (\<lambda>i. real i / rate) [0 ..< n]"

definition sample_time :: "SingleStream \<Rightarrow> real list" where
  "sample_time s = sample_time_of (length (s21_raw s)) (stream_sample_rate s)"

text \<open>
  The last axis of a two-dimensional array; an array without rows is given no columns.
\<close>

definition sa_num_samples :: "StreamArray \<Rightarrow> nat" where
  "sa_num_samples a = (case sa_s21_raw a of [] \<Rightarrow> 0 | r # rs \<Rightarrow> length r)"

definition sa_sample_time :: "StreamArray \<Rightarrow> real list" where
  "sa_sample_time a = sample_time_of (sa_num_samples a) (sa_stream_sample_rate a)"

text \<open>
  \<open>np.searchsorted\<close> on an ascending array: with \<open>side='left'\<close> the number of entries
  below the value, with \<open>side='right'\<close> the number of entries not above it.
\<close>

definition searchsorted_left :: "real list \<Rightarrow> real \<Rightarrow> nat" where
  "searchsorted_left a v = length (takeWhile (\<lambda>x. x < v) a)"

definition searchsorted_right :: "real list \<Rightarrow> real \<Rightarrow> nat" where
  "searchsorted_right a v = length (takeWhile (\<lambda>x. x \<le> v) a)"

text \<open>The slice \<open>a[start:stop]\<close> for indices within \<open>0 .. len(a)\<close>.\<close>

definition slice :: "nat \<Rightarrow> nat \<Rightarrow> 'a list \<Rightarrow> 'a list" where
  "slice start stop xs = take (stop - start) (drop start xs)"

text \<open>
  The two indices that \<open>RoachStream.epochs\<close> computes from the absolute sample times.
  A bound of \<open>None\<close> is the default, minus or plus infinity.
\<close>

definition start_index_of :: "real list \<Rightarrow> real option \<Rightarrow> nat" where
  "start_index_of abs_times start = (case start of None \<Rightarrow> 0 | Some v \<Rightarrow> searchsorted_left abs_times v)"

definition stop_index_of :: "real list \<Rightarrow> real option \<Rightarrow> nat" where
  "stop_index_of abs_times stop =
     (case stop of None \<Rightarrow> length abs_times | Some v \<Rightarrow> searchsorted_right abs_times v)"

text \<open>
  \<open>RoachStream.epochs\<close> on a \<open>SingleStream\<close> and on a \<open>StreamArray\<close>.
  \<open>self.sample_time[start_index]\<close> raises \<open>IndexError\<close> when every sample lies before
  \<open>start\<close>.
\<close>

definition epochs :: "real option \<Rightarrow> real option \<Rightarrow> SingleStream \<Rightarrow> error + SingleStream" where
  "epochs start stop s =
     (let abs_times = map (\<lambda>t. epoch s + t) (sample_time s);
          start_index = start_index_of abs_times start;
          stop_index = stop_index_of abs_times stop
      in if start_index \<ge> length (sample_time s) then Inl IndexError
         else Inr (s\<lparr>epoch := epoch s + sample_time s ! start_index,
                     sequence_start_number := None,
                     s21_raw := slice start_index stop_index (s21_raw s)\<rparr>))"

definition sa_epochs :: "real option \<Rightarrow> real option \<Rightarrow> StreamArray \<Rightarrow> error + StreamArray" where
  "sa_epochs start stop a =
     (let abs_times = map (\<lambda>t. sa_epoch a + t) (sa_sample_time a);
          start_index = start_index_of abs_times start;
          stop_index = stop_index_of abs_times stop
      in if start_index \<ge> length (sa_sample_time a) then Inl IndexError
         else Inr (a\<lparr>sa_epoch := sa_epoch a + sa_sample_time a ! start_index,
                     sa_sequence_start_number := None,
                     sa_s21_raw := map (slice start_index stop_index) (sa_s21_raw a)\<rparr>))"

text \<open>
  \<open>RoachStream.s21_raw_mean_error\<close>.  On a \<open>SingleStream\<close> the count of good samples is a
  scalar and the \<open>elif\<close> branch replaces a zero count by NaN; on a \<open>StreamArray\<close> the
  counts form an array and the assignment \<open>num_good_samples[num_good_samples == 0] = nan\<close>
  replaces the zero entries.
\<close>

definition s21_raw_mean_error :: "SingleStream \<Rightarrow> real quotient \<times> real quotient" where
  "s21_raw_mean_error s =
     (let n = Some (real (num_good (s21_raw s)));
          num_good_samples = (if n = Some 0 then None else n)
      in np_divide_complex
           (np_complex (nanstd (map fst (s21_raw s))) (nanstd (map snd (s21_raw s))))
           (np_sqrt num_good_samples))"

definition sa_s21_raw_mean_error :: "StreamArray \<Rightarrow> (real quotient \<times> real quotient) list" where
  "sa_s21_raw_mean_error a =
     (let ns = map (\<lambda>row. Some (real (num_good row))) (sa_s21_raw a);
          num_good_samples = map (\<lambda>n. if n = Some 0 then None else n) ns
      in map2 np_divide_complex
           (map2 np_complex (map (\<lambda>row. nanstd (map fst row)) (sa_s21_raw a))
                            (map (\<lambda>row. nanstd (map snd row)) (sa_s21_raw a)))
           (map np_sqrt num_good_samples))"

text \<open>\<open>s21_raw_mean\<close>, \<open>s21_point\<close> and \<open>s21_point_error\<close>.\<close>

definition s21_raw_mean :: "SingleStream \<Rightarrow> cfl" where
  "s21_raw_mean s = nanmean (s21_raw s)"

definition sa_s21_raw_mean :: "StreamArray \<Rightarrow> cfl list" where
  "sa_s21_raw_mean a = map nanmean (sa_s21_raw a)"

definition s21_point :: "SingleStream \<Rightarrow> cfl" where
  "s21_point s = s21_raw_mean s"

definition s21_point_error :: "SingleStream \<Rightarrow> real quotient \<times> real quotient" where
  "s21_point_error s = s21_raw_mean_error s"

definition sa_s21_point :: "StreamArray \<Rightarrow> cfl list" where
  "sa_s21_point a = sa_s21_raw_mean a"

definition sa_s21_point_error :: "StreamArray \<Rightarrow> (real quotient \<times> real quotient) list" where
  "sa_s21_point_error a = sa_s21_raw_mean_error a"

subsection \<open>Sweeps: streams in ascending frequency order\<close>

text \<open>
  \<open>numpy.argsort\<close>: a permutation of the indices that puts the values in ascending order.
  The model sorts stably; numpy's default sort may order equal values differently, which
  no statement below depends on.
\<close>

definition argsort :: "real list \<Rightarrow> nat list" where
  "argsort xs = map snd (sort_key fst (zip xs [0 ..< length xs]))"

text \<open>
  Indexing an array with an index array, \<open>a[order]\<close>.  numpy raises \<open>IndexError\<close> for an
  index out of range.
\<close>

definition np_index :: "'a list \<Rightarrow> nat list \<Rightarrow> error + 'a list" where
  "np_index a idx =
     (if list_all (\<lambda>i. i < length a) idx then Inr (map (\<lambda>i. a ! i) idx) else Inl IndexError)"

text \<open>
  \<open>np.vstack\<close> of one-dimensional arrays and \<open>np.concatenate\<close>: both raise \<open>ValueError\<close>
  for an empty list of arrays, \<open>vstack\<close> also for rows of different lengths.
\<close>

definition np_vstack :: "'a list list \<Rightarrow> error + 'a list list" where
  "np_vstack rows =
     (case rows of
        [] \<Rightarrow> Inl ValueError
      | r # rs \<Rightarrow> if list_all (\<lambda>r'. length r' = length r) rs then Inr rows else Inl ValueError)"

definition np_concatenate :: "'a list list \<Rightarrow> error + 'a list" where
  "np_concatenate arrays = (if arrays = [] then Inl ValueError else Inr (concat arrays))"

text \<open>
  A \<open>SingleSweep\<close>: its streams and the attribute \<open>_resonator\<close>, which holds the result of
  the last fit once there is one.  The other memoized properties are functions of the
  streams alone, so their caches are not part of the state.
\<close>

record 'r SingleSweep =
  streams :: "SingleStream list"
  attr_resonator :: "'r option"

definition ascending_order :: "'r SingleSweep \<Rightarrow> nat list" where
  "ascending_order sw = argsort (map frequency (streams sw))"

definition sweep_frequency :: "'r SingleSweep \<Rightarrow> error + real list" where
  "sweep_frequency sw = np_index (map frequency (streams sw)) (ascending_order sw)"

definition sweep_s21_point :: "'r SingleSweep \<Rightarrow> error + cfl list" where
  "sweep_s21_point sw = np_index (map s21_point (streams sw)) (ascending_order sw)"

definition sweep_s21_point_error :: "'r SingleSweep \<Rightarrow> error + (real quotient \<times> real quotient) list" where
  "sweep_s21_point_error sw = np_index (map s21_point_error (streams sw)) (ascending_order sw)"

definition sweep_s21_raw :: "'r SingleSweep \<Rightarrow> error + cfl list list" where
  "sweep_s21_raw sw =
     (case np_vstack (map s21_raw (streams sw)) of
        Inl e \<Rightarrow> Inl e
      | Inr rows \<Rightarrow> np_index rows (ascending_order sw))"

text \<open>
  A \<open>SweepArray\<close>: a list of \<open>StreamArray\<close>s whose channels are concatenated.  The
  two-dimensional arrays are stacked row by row; \<open>np.vstack\<close> raises \<open>ValueError\<close> for an
  empty list of arrays and for rows of different lengths.
\<close>

record SweepArray =
  stream_arrays :: "StreamArray list"

definition swa_ascending_order :: "SweepArray \<Rightarrow> error + nat list" where
  "swa_ascending_order A =
     (case np_concatenate (map sa_frequency (stream_arrays A)) of
        Inl e \<Rightarrow> Inl e
      | Inr fs \<Rightarrow> Inr (argsort fs))"

definition swa_frequency :: "SweepArray \<Rightarrow> error + real list" where
  "swa_frequency A =
     (case np_concatenate (map sa_frequency (stream_arrays A)) of
        Inl e \<Rightarrow> Inl e
      | Inr fs \<Rightarrow> (case swa_ascending_order A of Inl e \<Rightarrow> Inl e | Inr order \<Rightarrow> np_index fs order))"

definition swa_s21_point :: "SweepArray \<Rightarrow> error + cfl list" where
  "swa_s21_point A =
     (case np_concatenate (map sa_s21_point (stream_arrays A)) of
        Inl e \<Rightarrow> Inl e
      | Inr ps \<Rightarrow> (case swa_ascending_order A of Inl e \<Rightarrow> Inl e | Inr order \<Rightarrow> np_index ps order))"

definition swa_s21_point_error :: "SweepArray \<Rightarrow> error + (real quotient \<times> real quotient) list" where
  "swa_s21_point_error A =
     (case np_concatenate (map sa_s21_point_error (stream_arrays A)) of
        Inl e \<Rightarrow> Inl e
      | Inr ps \<Rightarrow> (case swa_ascending_order A of Inl e \<Rightarrow> Inl e | Inr order \<Rightarrow> np_index ps order))"

definition swa_s21_raw :: "SweepArray \<Rightarrow> error + cfl list list" where
  "swa_s21_raw A =
     (if stream_arrays A = [] then Inl ValueError
      else let rows = concat (map sa_s21_raw (stream_arrays A)) in
        if \<not> list_all (\<lambda>r. length r = length (hd rows)) rows then Inl ValueError
        else (case swa_ascending_order A of Inl e \<Rightarrow> Inl e | Inr order \<Rightarrow> np_index rows order))"

subsection \<open>Fitting a resonator to a sweep\<close>

text \<open>
  A resonator class of \<open>kid_readout.analysis.resonator.lmfit_resonator\<close> (a module that is
  not among the sources): \<open>construct\<close> is the call \<open>model(frequency=, s21=, errors=)\<close>,
  \<open>fit\<close> the method \<open>fit(params)\<close>, which updates the resonator object.
\<close>

record ('r, 'p) resonator_model =
  construct :: "real list \<Rightarrow> cfl list \<Rightarrow> (real quotient \<times> real quotient) list \<Rightarrow> 'r"
  fit :: "'p option \<Rightarrow> 'r \<Rightarrow> 'r"

text \<open>
  \<open>SingleSweep.fit_resonator\<close>: the caches are deleted, the model is built on the three
  sorted arrays and fitted, and the fitted resonator is stored in \<open>_resonator\<close> and
  returned.
\<close>

definition fit_resonator ::
  "('r, 'p) resonator_model \<Rightarrow> 'p option \<Rightarrow> 'r SingleSweep \<Rightarrow> error + ('r \<times> 'r SingleSweep)" where
  "fit_resonator model params sw =
     (let sw1 = sw\<lparr>attr_resonator := None\<rparr> in
      case sweep_frequency sw1 of Inl e \<Rightarrow> Inl e | Inr f \<Rightarrow>
      case sweep_s21_point sw1 of Inl e \<Rightarrow> Inl e | Inr s21 \<Rightarrow>
      case sweep_s21_point_error sw1 of Inl e \<Rightarrow> Inl e | Inr errors \<Rightarrow>
        (let r = fit model params (construct model f s21 errors)
         in Inr (r, sw1\<lparr>attr_resonator := Some r\<rparr>)))"

text \<open>
  The memoized property \<open>SingleSweep.resonator\<close>: the stored resonator when there is one,
  and otherwise the result of \<open>fit_resonator()\<close> with the default model and no
  parameters.
\<close>

definition resonator ::
  "('r, 'p) resonator_model \<Rightarrow> 'r SingleSweep \<Rightarrow> error + ('r \<times> 'r SingleSweep)" where
  "resonator default_model sw =
     (case attr_resonator sw of
        Some r \<Rightarrow> Inr (r, sw)
      | None \<Rightarrow>
          (case fit_resonator default_model None sw of
             Inl e \<Rightarrow> Inl e
           | Inr (r, sw1) \<Rightarrow> Inr (r, sw1\<lparr>attr_resonator := Some r\<rparr>)))"

section \<open>Theorems: the SIM drivers\<close>

subsection \<open>Setting the SIM921 excitation frequency\<close>

text \<open>
  Claim C9, the part that fails as stated.  A frequency of 10 Hz lies within the range,
  yet when the mainframe is already connected to a port the setter raises \<open>ValueError\<close>
  (from \<open>SIM900.connect\<close>) and nothing is written: the command \<open>FREQ 10\<close> is not sent.
\<close>

theorem SIM921_set_frequency_parent_connected:
  "minimum_frequency \<le> 10 \<and> 10 \<le> maximum_frequency \<and>
   SIM921_set_frequency (\<lambda>x. ''10'') 10
       \<lparr>written = [], parent_port = Some ''3'', parent_connected = Some ''3''\<rparr>
     = (Inl ValueError, \<lparr>written = [], parent_port = Some ''3'', parent_connected = Some ''3''\<rparr>)"
  by (simp add: minimum_frequency_def maximum_frequency_def SIM921_set_frequency_def send_def
      SIM900_connect_def)

text \<open>
  Claim C9, amended.  Outside the closed range 1.95 Hz to 61.1 Hz the setter raises
  \<open>ValueError\<close> and leaves the link and the connection state as they were.  Within the
  range, a module addressed directly gets the one write \<open>FREQ f\<close>; a module behind a
  mainframe that is not connected gets \<open>FREQ f\<close> bracketed by the mainframe's \<open>CONN\<close> and
  \<open>ESCAPE\<close> writes; behind a mainframe that is already connected the setter raises
  \<open>ValueError\<close> and writes nothing.
\<close>

theorem SIM921_set_frequency_cases:
  "(\<not> (195 / 100 \<le> f \<and> f \<le> 611 / 10) \<longrightarrow>
      SIM921_set_frequency fmt f st = (Inl ValueError, st)) \<and>
   (195 / 100 \<le> f \<and> f \<le> 611 / 10 \<and> parent_port st = None \<longrightarrow>
      SIM921_set_frequency fmt f st =
        (Inr (), st\<lparr>written := written st @ [''FREQ '' @ fmt f @ [CHR 0x0A]]\<rparr>)) \<and>
   (195 / 100 \<le> f \<and> f \<le> 611 / 10 \<and> parent_port st = Some p \<and> parent_connected st = None \<longrightarrow>
      SIM921_set_frequency fmt f st =
        (Inr (), st\<lparr>written := written st @
                   [''CONN '' @ p @ '', '' @ [CHR 0x22] @ ''ESCAPE'' @ [CHR 0x22, CHR 0x0A],
                    ''FREQ '' @ fmt f @ [CHR 0x0A],
                    ''ESCAPE'' @ [CHR 0x0A]],
                 parent_connected := None\<rparr>)) \<and>
   (195 / 100 \<le> f \<and> f \<le> 611 / 10 \<and> parent_port st = Some p \<and> parent_connected st \<noteq> None \<longrightarrow>
      SIM921_set_frequency fmt f st = (Inl ValueError, st))"
  by (auto simp add: minimum_frequency_def maximum_frequency_def SIM921_set_frequency_def send_def
      SIM900_connect_def SIM900_disconnect_def serial_write_def escape_def SIM_termination_def)

theorem SIM921_set_frequency_cases_witness:
  "SIM921_set_frequency (\<lambda>x. ''70'') 70 \<lparr>written = [], parent_port = None, parent_connected = None\<rparr>
     = (Inl ValueError, \<lparr>written = [], parent_port = None, parent_connected = None\<rparr>) \<and>
   SIM921_set_frequency (\<lambda>x. ''10'') 10 \<lparr>written = [], parent_port = None, parent_connected = None\<rparr>
     = (Inr (), \<lparr>written = [''FREQ 10'' @ [CHR 0x0A]], parent_port = None, parent_connected = None\<rparr>) \<and>
   SIM921_set_frequency (\<lambda>x. ''10'') 10 \<lparr>written = [], parent_port = Some ''3'', parent_connected = None\<rparr>
     = (Inr (), \<lparr>written = [''CONN 3, '' @ [CHR 0x22] @ ''ESCAPE'' @ [CHR 0x22, CHR 0x0A],
                              ''FREQ 10'' @ [CHR 0x0A], ''ESCAPE'' @ [CHR 0x0A]],
                  parent_port = Some ''3'', parent_connected = None\<rparr>) \<and>
   SIM921_set_frequency (\<lambda>x. ''10'') 10 \<lparr>written = [], parent_port = Some ''3'', parent_connected = Some ''5''\<rparr>
     = (Inl ValueError, \<lparr>written = [], parent_port = Some ''3'', parent_connected = Some ''5''\<rparr>)"
  using
    SIM921_set_frequency_cases [where f = 70 and fmt = "\<lambda>x. ''70''"
      and st = "\<lparr>written = [], parent_port = None, parent_connected = None\<rparr>"]
    SIM921_set_frequency_cases [where f = 10 and fmt = "\<lambda>x. ''10''"
      and st = "\<lparr>written = [], parent_port = None, parent_connected = None\<rparr>"]
    SIM921_set_frequency_cases [where f = 10 and fmt = "\<lambda>x. ''10''" and p = "''3''"
      and st = "\<lparr>written = [], parent_port = Some ''3'', parent_connected = None\<rparr>"]
    SIM921_set_frequency_cases [where f = 10 and fmt = "\<lambda>x. ''10''" and p = "''3''"
      and st = "\<lparr>written = [], parent_port = Some ''3'', parent_connected = Some ''5''\<rparr>"]
  by simp

subsection \<open>Writing and validating a calibration curve\<close>

text \<open>
  A curve with more points than the module stores is refused with \<open>SIMError\<close> before
  anything is written, the \<open>CINI\<close> command included.
\<close>

lemma write_curve_too_many_points:
  "length (sensor curve) > maximum_temperature_points instr \<Longrightarrow>
     write_curve F dev instr number curve st = (Inl SIMError, st)"
  by (simp add: write_curve_def)

text \<open>
  When the stored arrays are as long as the curve's, the comparison succeeds exactly when
  every stored value is within the fractional error of its partner and identification
  and format agree.
\<close>

lemma compare_curves_equal_lengths:
  "length (sensor stored) = length (sensor curve) \<Longrightarrow>
   length (temperature stored) = length (temperature curve) \<Longrightarrow>
   compare_curves stored curve = Inr True \<longleftrightarrow>
     (\<forall>i < length (sensor curve). fraction_ok (sensor stored ! i) (sensor curve ! i)) \<and>
     (\<forall>i < length (temperature curve). fraction_ok (temperature stored ! i) (temperature curve ! i)) \<and>
     identification stored = identification curve \<and> curve_format stored = curve_format curve"
  by (auto simp add: compare_curves_def np_broadcast_def list_all_length)

text \<open>
  Claim C10, the part the code misses.  The instrument has dropped the only point of a
  one-point curve, so the stored arrays (length 0) and the curve's arrays (length 1)
  differ in length.  numpy broadcasts the pair to an empty array instead of raising
  \<open>ValueError\<close>, \<open>np.all\<close> of an empty array is true, and \<open>validate_curve\<close> returns \<open>True\<close>;
  \<open>write_curve\<close> then returns without \<open>SIMError\<close>.
\<close>

theorem validate_curve_accepts_dropped_point:
  "fst (validate_curve \<lparr>format_int = (\<lambda>n. ''1''), format_float = (\<lambda>x. ''x'')\<rparr>
          \<lparr>CINI_reply = (\<lambda>n. (''0'', ''X'', 0)), CAPT_reply = (\<lambda>n k. (0, 0))\<rparr>
          1
          \<lparr>sensor = [1000], temperature = [4], identification = ''X'', curve_format = ''0''\<rparr>
          \<lparr>written = [], parent_port = None, parent_connected = None\<rparr>)
     = Inr True \<and>
   fst (write_curve \<lparr>format_int = (\<lambda>n. ''1''), format_float = (\<lambda>x. ''x'')\<rparr>
          \<lparr>CINI_reply = (\<lambda>n. (''0'', ''X'', 0)), CAPT_reply = (\<lambda>n k. (0, 0))\<rparr>
          SIM921 1
          \<lparr>sensor = [1000], temperature = [4], identification = ''X'', curve_format = ''0''\<rparr>
          \<lparr>written = [], parent_port = None, parent_connected = None\<rparr>)
     = Inr ()"
  by (simp add: write_curve_def initialize_curve_def send_def validate_curve_def curve_info_def
      read_curve_def and_then_def send_and_receive_def serial_write_def SIM_termination_def
      mk_CalibrationCurve_def np_diff_def compare_curves_def np_broadcast_def upper_char_def)

text \<open>
  The same happens when one point of two survives and the two points lie within the
  fractional error of each other: the stored array of length one is broadcast.
\<close>

lemma compare_curves_broadcasts_single_point:
  "compare_curves
     \<lparr>sensor = [1000], temperature = [4], identification = ''X'', curve_format = ''0''\<rparr>
     \<lparr>sensor = [1000, 100005 / 100], temperature = [4, 40002 / 10000],
       identification = ''X'', curve_format = ''0''\<rparr> = Inr True"
  by (simp add: compare_curves_def np_broadcast_def fraction_ok_def maximum_fractional_error_def)

section \<open>Theorems: streams\<close>

subsection \<open>Slicing a stream by epoch\<close>

text \<open>
  Claim C6 at a concrete stream: three samples taken at 1 Hz from epoch 0, so at the
  absolute times 0, 1 and 2.  \<open>epochs(0, 1)\<close> keeps the samples at times 0 and 1: the
  sample at the stop time is included, because the stop index is searched with
  \<open>side='right'\<close>.  The sample at time 1 is therefore also the first sample of
  \<open>epochs(1, 2)\<close>, and the two slices together hold four samples where \<open>epochs(0, 2)\<close>
  holds three.
\<close>

theorem epochs_includes_sample_at_stop:
  "epochs (Some 0) (Some 1)
     \<lparr>epoch = 0, frequency = 100, stream_sample_rate = 1, sequence_start_number = Some 7,
       s21_raw = [(Some 1, Some 0), (Some 2, Some 0), (Some 3, Some 0)], state = []\<rparr>
     = Inr \<lparr>epoch = 0, frequency = 100, stream_sample_rate = 1, sequence_start_number = None,
             s21_raw = [(Some 1, Some 0), (Some 2, Some 0)], state = []\<rparr> \<and>
   epochs (Some 1) (Some 2)
     \<lparr>epoch = 0, frequency = 100, stream_sample_rate = 1, sequence_start_number = Some 7,
       s21_raw = [(Some 1, Some 0), (Some 2, Some 0), (Some 3, Some 0)], state = []\<rparr>
     = Inr \<lparr>epoch = 1, frequency = 100, stream_sample_rate = 1, sequence_start_number = None,
             s21_raw = [(Some 2, Some 0), (Some 3, Some 0)], state = []\<rparr> \<and>
   epochs (Some 0) (Some 2)
     \<lparr>epoch = 0, frequency = 100, stream_sample_rate = 1, sequence_start_number = Some 7,
       s21_raw = [(Some 1, Some 0), (Some 2, Some 0), (Some 3, Some 0)], state = []\<rparr>
     = Inr \<lparr>epoch = 0, frequency = 100, stream_sample_rate = 1, sequence_start_number = None,
             s21_raw = [(Some 1, Some 0), (Some 2, Some 0), (Some 3, Some 0)], state = []\<rparr>"
  by (simp add: epochs_def sample_time_def sample_time_of_def start_index_of_def stop_index_of_def
      searchsorted_left_def searchsorted_right_def slice_def Let_def upt_rec)

subsection \<open>The standard error of the mean of a stream\<close>

lemma num_good_zero_iff: "num_good xs = 0 \<longleftrightarrow> list_all isnan xs"
  by (induction xs) (auto simp add: num_good_def)

lemma nanstd_parts_Some:
  assumes "\<not> list_all isnan xs"
  shows "\<exists>a. nanstd (map fst xs) = Some a" and "\<exists>b. nanstd (map snd xs) = Some b"
proof -
  from assms obtain z where z: "z \<in> set xs" "\<not> isnan z"
    by (auto simp add: list_all_iff)
  then have "fst z \<noteq> None" "snd z \<noteq> None"
    by (auto simp add: isnan_def)
  with z have "filter (\<lambda>x. x \<noteq> None) (map fst xs) \<noteq> []" "filter (\<lambda>x. x \<noteq> None) (map snd xs) \<noteq> []"
    by (auto simp add: filter_empty_conv)
  then show "\<exists>a. nanstd (map fst xs) = Some a" and "\<exists>b. nanstd (map snd xs) = Some b"
    by (auto simp add: nanstd_def Let_def)
qed

lemma mean_error_all_nan:
  assumes "list_all isnan xs"
  shows "s21_raw_mean_error (s\<lparr>s21_raw := xs\<rparr>) = (QNaN, QNaN)"
proof -
  from assms have "num_good xs = 0" by (simp add: num_good_zero_iff)
  then show ?thesis
    by (simp add: s21_raw_mean_error_def np_sqrt_def np_divide_complex_def Let_def split: option.splits)
qed

lemma mean_error_some_good:
  assumes "\<not> list_all isnan xs"
  shows "\<exists>a b. nanstd (map fst xs) = Some a \<and> nanstd (map snd xs) = Some b \<and> 0 < num_good xs \<and>
     s21_raw_mean_error (s\<lparr>s21_raw := xs\<rparr>)
       = (Quot (a / sqrt (real (num_good xs))), Quot (b / sqrt (real (num_good xs))))"
proof -
  from nanstd_parts_Some[OF assms] obtain a b
    where ab: "nanstd (map fst xs) = Some a" "nanstd (map snd xs) = Some b"
    by blast
  from assms have n: "0 < num_good xs"
    using num_good_zero_iff[of xs] by simp
  then have "s21_raw_mean_error (s\<lparr>s21_raw := xs\<rparr>)
      = (Quot (a / sqrt (real (num_good xs))), Quot (b / sqrt (real (num_good xs))))"
    by (simp add: s21_raw_mean_error_def ab np_sqrt_def np_divide_complex_def np_complex_def)
  with ab n show ?thesis by blast
qed

lemma sa_mean_error_nth:
  assumes "i < length (sa_s21_raw A)"
  shows "sa_s21_raw_mean_error A ! i = s21_raw_mean_error (s\<lparr>s21_raw := sa_s21_raw A ! i\<rparr>)"
  using assms by (simp add: sa_s21_raw_mean_error_def s21_raw_mean_error_def Let_def)

text \<open>
  Claim C8.  On a \<open>SingleStream\<close> and on every channel of a \<open>StreamArray\<close>: when every
  sample of the channel is NaN the error is NaN in both parts; otherwise the count of
  good samples is positive, both standard deviations are finite, and the error is their
  quotient by the square root of the count.  The outcome \<open>DivByZero\<close> never occurs.
\<close>

theorem s21_raw_mean_error_never_divides_by_zero:
  "(list_all isnan (s21_raw s) \<longrightarrow> s21_raw_mean_error s = (QNaN, QNaN)) \<and>
   (\<not> list_all isnan (s21_raw s) \<longrightarrow>
      (\<exists>a b. nanstd (map fst (s21_raw s)) = Some a \<and> nanstd (map snd (s21_raw s)) = Some b \<and>
             0 < num_good (s21_raw s) \<and>
             s21_raw_mean_error s = (Quot (a / sqrt (real (num_good (s21_raw s)))),
                                     Quot (b / sqrt (real (num_good (s21_raw s))))))) \<and>
   length (sa_s21_raw_mean_error A) = length (sa_s21_raw A) \<and>
   (\<forall>i < length (sa_s21_raw A).
      (list_all isnan (sa_s21_raw A ! i) \<longrightarrow> sa_s21_raw_mean_error A ! i = (QNaN, QNaN)) \<and>
      (\<not> list_all isnan (sa_s21_raw A ! i) \<longrightarrow>
         (\<exists>a b. nanstd (map fst (sa_s21_raw A ! i)) = Some a \<and>
                nanstd (map snd (sa_s21_raw A ! i)) = Some b \<and>
                0 < num_good (sa_s21_raw A ! i) \<and>
                sa_s21_raw_mean_error A ! i = (Quot (a / sqrt (real (num_good (sa_s21_raw A ! i)))),
                                               Quot (b / sqrt (real (num_good (sa_s21_raw A ! i))))))))"
proof (intro conjI impI allI)
  assume "list_all isnan (s21_raw s)"
  from mean_error_all_nan[OF this, of s] show "s21_raw_mean_error s = (QNaN, QNaN)" by simp
next
  assume "\<not> list_all isnan (s21_raw s)"
  from mean_error_some_good[OF this, of s]
  show "\<exists>a b. nanstd (map fst (s21_raw s)) = Some a \<and> nanstd (map snd (s21_raw s)) = Some b \<and>
             0 < num_good (s21_raw s) \<and>
             s21_raw_mean_error s = (Quot (a / sqrt (real (num_good (s21_raw s)))),
                                     Quot (b / sqrt (real (num_good (s21_raw s)))))"
    by simp
next
  show "length (sa_s21_raw_mean_error A) = length (sa_s21_raw A)"
    by (simp add: sa_s21_raw_mean_error_def)
next
  fix i assume "i < length (sa_s21_raw A)" "list_all isnan (sa_s21_raw A ! i)"
  then show "sa_s21_raw_mean_error A ! i = (QNaN, QNaN)"
    using sa_mean_error_nth[of i A s] mean_error_all_nan[of "sa_s21_raw A ! i" s] by simp
next
  fix i assume i: "i < length (sa_s21_raw A)" and g: "\<not> list_all isnan (sa_s21_raw A ! i)"
  from mean_error_some_good[OF g, of s] sa_mean_error_nth[OF i, of s]
  show "\<exists>a b. nanstd (map fst (sa_s21_raw A ! i)) = Some a \<and>
                nanstd (map snd (sa_s21_raw A ! i)) = Some b \<and>
                0 < num_good (sa_s21_raw A ! i) \<and>
                sa_s21_raw_mean_error A ! i = (Quot (a / sqrt (real (num_good (sa_s21_raw A ! i)))),
                                               Quot (b / sqrt (real (num_good (sa_s21_raw A ! i)))))"
    by simp
qed

theorem s21_raw_mean_error_never_divides_by_zero_witness:
  "s21_raw_mean_error
     \<lparr>epoch = 0, frequency = 100, stream_sample_rate = 1, sequence_start_number = None,
       s21_raw = [(None, None), (None, Some 1)], state = []\<rparr> = (QNaN, QNaN) \<and>
   s21_raw_mean_error
     \<lparr>epoch = 0, frequency = 100, stream_sample_rate = 1, sequence_start_number = None,
       s21_raw = [(None, None), (Some 1, Some 0), (Some 3, Some 0)], state = []\<rparr>
     = (Quot (1 / sqrt 2), Quot 0) \<and>
   sa_s21_raw_mean_error
     \<lparr>sa_epoch = 0, sa_frequency = [100, 101], sa_stream_sample_rate = 1,
       sa_sequence_start_number = None,
       sa_s21_raw = [[(None, None), (None, None)], [(Some 1, Some 0), (Some 3, Some 0)]],
       sa_state = []\<rparr> ! 1
     = (Quot (1 / sqrt 2), Quot 0)"
  using s21_raw_mean_error_never_divides_by_zero
     [of "\<lparr>epoch = 0, frequency = 100, stream_sample_rate = 1, sequence_start_number = None,
       s21_raw = [(None, None), (None, Some 1)], state = []\<rparr>"
      "\<lparr>sa_epoch = 0, sa_frequency = [100, 101], sa_stream_sample_rate = 1,
       sa_sequence_start_number = None,
       sa_s21_raw = [[(None, None), (None, None)], [(Some 1, Some 0), (Some 3, Some 0)]],
       sa_state = []\<rparr>"]
    s21_raw_mean_error_never_divides_by_zero
     [of "\<lparr>epoch = 0, frequency = 100, stream_sample_rate = 1, sequence_start_number = None,
       s21_raw = [(None, None), (Some 1, Some 0), (Some 3, Some 0)], state = []\<rparr>"
      "\<lparr>sa_epoch = 0, sa_frequency = [100, 101], sa_stream_sample_rate = 1,
       sa_sequence_start_number = None,
       sa_s21_raw = [[(None, None), (None, None)], [(Some 1, Some 0), (Some 3, Some 0)]],
       sa_state = []\<rparr>"]
  by (auto simp add: isnan_def nanstd_def mean_def num_good_def)

end
